theory Spec2Isabelle
  imports Main "HOL-Library.Word"
begin

section \<open>The RTSP proxy server's main program\<close>

text \<open>
  A shallow embedding of \<^verbatim>\<open>src/proxyServer/live555ProxyServer.cpp\<close>: the command-line
  loop of \<^verbatim>\<open>main\<close>, the creation of the RTSP server with its fallback port, and the
  loop over the lines of the definition file. The streaming engine (liveMedia) is not
  part of the program: its entry points are parameters, and every call the program makes
  to it is recorded in a trace.
\<close>

subsection \<open>C strings and the C library\<close>

text \<open>
  \<^verbatim>\<open>s[i]\<close> on a NUL-terminated string: the characters, then the terminator at
  \<^verbatim>\<open>i = strlen(s)\<close>. The program reads \<^verbatim>\<open>opt[0]\<close> always and \<^verbatim>\<open>opt[1]\<close>
  only when \<^verbatim>\<open>opt[0]\<close> is a dash, so it never reads past the terminator.
\<close>

definition c_at :: "string \<Rightarrow> nat \<Rightarrow> char" where
  "c_at s i = (if i < length s then s ! i else CHR 0x00)"

text \<open>\<^verbatim>\<open>isspace\<close> and \<^verbatim>\<open>isdigit\<close> of the C locale.\<close>

definition isspace :: "char \<Rightarrow> bool" where
  "isspace c = (c \<in> {CHR '' '', CHR 0x09, CHR 0x0A, CHR 0x0B, CHR 0x0C, CHR 0x0D})"

definition isdigit :: "char \<Rightarrow> bool" where
  "isdigit c = (c \<in> set ''0123456789'')"

definition digit_value :: "char \<Rightarrow> nat" where
  "digit_value c = of_char c - 48"

definition decimal_value :: "string \<Rightarrow> nat" where
  "decimal_value ds = foldl (\<lambda>a c. 10 * a + digit_value c) 0 ds"

text \<open>The largest \<^verbatim>\<open>unsigned long\<close> (LP64).\<close>

definition ULONG_MAX :: nat where
  "ULONG_MAX = 2 ^ 64 - 1"

text \<open>
  \<^verbatim>\<open>strtoul\<close> in base 10 on a sign and a run of digits: the value, negated modulo
  \<^verbatim>\<open>ULONG_MAX + 1\<close> after a minus sign, and \<^verbatim>\<open>ULONG_MAX\<close> when the digits
  overflow an \<^verbatim>\<open>unsigned long\<close>.
\<close>

definition strtoul10 :: "bool \<Rightarrow> string \<Rightarrow> nat" where
  "strtoul10 neg ds =
     (let v = decimal_value ds
      in if v > ULONG_MAX then ULONG_MAX
         else if neg then (ULONG_MAX + 1 - v) mod (ULONG_MAX + 1)
         else v)"

text \<open>
  \<^verbatim>\<open>sscanf(s, "%hu", &x) == 1\<close>, with the value stored in \<^verbatim>\<open>x\<close>: the conversion
  skips white space, reads an optional sign and the longest run of decimal digits, fails
  when there is no digit, and otherwise stores the \<^verbatim>\<open>strtoul\<close> value narrowed to
  \<^verbatim>\<open>unsigned short\<close> (as the C libraries of Linux do; characters after the digits are
  left unread). \<open>None\<close> is a return value other than 1, and then nothing is stored.
\<close>

definition sscanf_hu :: "string \<Rightarrow> 16 word option" where
  "sscanf_hu s =
     (let s1 = dropWhile isspace s;
          neg = (c_at s1 0 = CHR ''-'');
          s2 = (if c_at s1 0 = CHR ''-'' \<or> c_at s1 0 = CHR ''+'' then tl s1 else s1);
          ds = takeWhile isdigit s2
      in if ds = [] then None else Some (of_nat (strtoul10 neg ds)))"

subsection \<open>Command-line parameters\<close>

text \<open>The global variables that hold the command-line parameters, with their defaults.\<close>

record config =
  verbosityLevel :: int
  tunnelOverHTTPPortNum :: "16 word"
  rtspServerPortNum :: "16 word"
  username :: "string option"
  password :: "string option"

definition defaults :: config where
  "defaults = \<lparr>verbosityLevel = 0, tunnelOverHTTPPortNum = 0, rtspServerPortNum = 554,
                username = None, password = None\<rparr>"

text \<open>\<^verbatim>\<open>exit(status)\<close>.\<close>

datatype exit = Exit int

text \<open>\<^verbatim>\<open>usage()\<close> ends the process with status 1 (its message is printed in \<open>main\<close>).\<close>

definition usage_exit :: "exit + 'a" where
  "usage_exit = Inl (Exit 1)"

text \<open>
  The \<^verbatim>\<open>while (argc > 1)\<close> loop. The list is \<^verbatim>\<open>argv[1 .. argc-1]\<close>; the result is
  the globals and what is left of the list when the loop ends (at a \<^verbatim>\<open>break\<close> or
  with \<^verbatim>\<open>argc == 1\<close>), or the exit of \<^verbatim>\<open>usage()\<close>.
\<close>

fun parse_options :: "config \<Rightarrow> string list \<Rightarrow> exit + (config \<times> string list)" where
  "parse_options c [] = Inr (c, [])"
| "parse_options c (opt # rest) =
     (if c_at opt 0 \<noteq> CHR ''-'' then Inr (c, opt # rest)
      else if c_at opt 1 = CHR ''v'' then parse_options (c\<lparr>verbosityLevel := 1\<rparr>) rest
      else if c_at opt 1 = CHR ''V'' then parse_options (c\<lparr>verbosityLevel := 2\<rparr>) rest
      else if c_at opt 1 = CHR ''p'' then
        (case rest of
           [] \<Rightarrow> usage_exit
         | tok # rest' \<Rightarrow>
             if c_at tok 0 \<noteq> CHR ''-'' then
               (case sscanf_hu tok of
                  None \<Rightarrow> usage_exit
                | Some n \<Rightarrow>
                    if n > 0 then parse_options (c\<lparr>rtspServerPortNum := n\<rparr>) rest'
                    else usage_exit)
             else usage_exit)
      else usage_exit)"

text \<open>
  The argument checks of \<^verbatim>\<open>main\<close>: \<^verbatim>\<open>argc < 2\<close> before and after the loop. The
  result is the globals and \<^verbatim>\<open>argv[1]\<close> after the loop, the path that \<^verbatim>\<open>main\<close>
  opens.
\<close>

definition parse_args :: "string list \<Rightarrow> exit + (config \<times> string)" where
  "parse_args args =
     (if args = [] then usage_exit
      else case parse_options defaults args of
             Inl e \<Rightarrow> Inl e
           | Inr (c, []) \<Rightarrow> usage_exit
           | Inr (c, path # _) \<Rightarrow> Inr (c, path))"

subsection \<open>The streaming engine and the trace\<close>

text \<open>
  The calls into liveMedia, as functions on the engine's state \<open>'e\<close>:
  \<^verbatim>\<open>RTSPServer::createNew\<close> returns a server or \<^verbatim>\<open>NULL\<close> (\<open>None\<close>),
  \<^verbatim>\<open>getResultMsg\<close> reads the reason of the last failure,
  \<^verbatim>\<open>ProxyServerMediaSession::createNew\<close> returns a session,
  \<^verbatim>\<open>addServerMediaSession\<close> registers it and \<^verbatim>\<open>rtspURL\<close> gives its public URL.
\<close>

record ('e, 's, 'h) engine =
  RTSPServer_createNew :: "'e \<Rightarrow> 16 word \<Rightarrow> 's option \<times> 'e"
  getResultMsg :: "'e \<Rightarrow> string"
  ProxyServerMediaSession_createNew ::
    "'e \<Rightarrow> 's \<Rightarrow> string \<Rightarrow> string \<Rightarrow> string option \<Rightarrow> string option \<Rightarrow> 16 word \<Rightarrow> int
       \<Rightarrow> 'h \<times> 'e"
  addServerMediaSession :: "'e \<Rightarrow> 's \<Rightarrow> 'h \<Rightarrow> 'e"
  rtspURL :: "'e \<Rightarrow> 's \<Rightarrow> 'h \<Rightarrow> string"

text \<open>
  What the program does to the outside, in order: a piece of text or a port number
  written to \<^verbatim>\<open>*env\<close>, and each call that creates a server, creates a session
  (with the arguments it was given), registers a session or enters the event loop.
\<close>

datatype ('s, 'h) event =
    Out string
  | OutPort "16 word"
  | CreateServer "16 word"
  | CreateSession 's string string "string option" "string option" "16 word" int
  | AddSession 's 'h
  | DoEventLoop

record ('e, 's, 'h) world =
  engine_state :: 'e
  trace :: "('s, 'h) event list"

definition emit :: "('s, 'h) event list \<Rightarrow> ('e, 's, 'h) world \<Rightarrow> ('e, 's, 'h) world" where
  "emit evs w = w\<lparr>trace := trace w @ evs\<rparr>"

definition newline :: string where
  "newline = [CHR 0x0A]"

subsection \<open>Creating the RTSP server\<close>

definition createRTSPServer ::
  "('e, 's, 'h) engine \<Rightarrow> 16 word \<Rightarrow> ('e, 's, 'h) world \<Rightarrow> 's option \<times> ('e, 's, 'h) world" where
  "createRTSPServer eng port w =
     (let (r, e') = RTSPServer_createNew eng (engine_state w) port
      in (r, \<lparr>engine_state = e', trace = trace w @ [CreateServer port]\<rparr>))"

text \<open>
  Lines 122 to 139 of \<^verbatim>\<open>main\<close>: the server on the configured port, then on 554 if
  that failed and the port was another one, then \<^verbatim>\<open>exit(1)\<close> if there is still no
  server. The second attempt overwrites \<^verbatim>\<open>rtspServerPortNum\<close>.
\<close>

definition create_server ::
  "('e, 's, 'h) engine \<Rightarrow> config \<Rightarrow> ('e, 's, 'h) world
     \<Rightarrow> (exit + 's) \<times> config \<times> ('e, 's, 'h) world" where
  "create_server eng c w =
     (let (rtspServer, w1) = createRTSPServer eng (rtspServerPortNum c) w;
          (rtspServer, c, w2) =
            (if rtspServer = None \<and> rtspServerPortNum c \<noteq> 554 then
               let w' = emit [Out ''Unable to create a RTSP server with port number '',
                              OutPort (rtspServerPortNum c), Out '': '',
                              Out (getResultMsg eng (engine_state w1)), Out newline] w1;
                   w' = emit [Out (''Trying instead with the standard port numbers (554)...''
                                   @ newline)] w';
                   c = c\<lparr>rtspServerPortNum := 554\<rparr>;
                   (rtspServer, w') = createRTSPServer eng (rtspServerPortNum c) w'
               in (rtspServer, c, w')
             else (rtspServer, c, w1))
      in case rtspServer of
           None \<Rightarrow>
             (Inl (Exit 1), c,
              emit [Out ''Failed to create RTSP server: '',
                    Out (getResultMsg eng (engine_state w2)), Out newline] w2)
         | Some srv \<Rightarrow> (Inr srv, c, w2))"

subsection \<open>Reading the definition file\<close>

text \<open>
  What \<^verbatim>\<open>std::string\<close> does outside its preconditions: \<^verbatim>\<open>front()\<close> requires a
  non-empty string, and \<^verbatim>\<open>substr\<close> throws \<^verbatim>\<open>std::out_of_range\<close> when the start
  is beyond the end of the string (nothing catches it).
\<close>

datatype fault = Front_of_empty_string | Substr_out_of_range

definition front :: "string \<Rightarrow> fault + char" where
  "front s = (case s of [] \<Rightarrow> Inl Front_of_empty_string | ch # _ \<Rightarrow> Inr ch)"

text \<open>
  \<^verbatim>\<open>std::size_t\<close> is a natural number below \<open>2 ^ 64\<close>: \<^verbatim>\<open>npos\<close> is the largest, and
  \<^verbatim>\<open>pos + 1\<close> wraps around.
\<close>

definition npos :: nat where
  "npos = 2 ^ 64 - 1"

definition size_t_succ :: "nat \<Rightarrow> nat" where
  "size_t_succ pos = (pos + 1) mod 2 ^ 64"

text \<open>\<^verbatim>\<open>line.find(" ")\<close>: the index of the first space, or \<^verbatim>\<open>npos\<close>.\<close>

definition find_space :: "string \<Rightarrow> nat" where
  "find_space s =
     (if CHR '' '' \<in> set s then length (takeWhile (\<lambda>ch. ch \<noteq> CHR '' '') s) else npos)"

text \<open>
  \<^verbatim>\<open>s.substr(pos, n)\<close>, and \<^verbatim>\<open>s.substr(pos)\<close>, whose count defaults to
  \<^verbatim>\<open>npos\<close>: the rest of the string.
\<close>

definition substr :: "string \<Rightarrow> nat \<Rightarrow> nat \<Rightarrow> fault + string" where
  "substr s pos n =
     (if pos > length s then Inl Substr_out_of_range else Inr (take n (drop pos s)))"

definition substr_from :: "string \<Rightarrow> nat \<Rightarrow> fault + string" where
  "substr_from s pos =
     (if pos > length s then Inl Substr_out_of_range else Inr (drop pos s))"

text \<open>
  Lines 162 to 172: the session for one line, its registration and the two lines of
  output.
\<close>

definition proxy_stream ::
  "('e, 's, 'h) engine \<Rightarrow> config \<Rightarrow> 's \<Rightarrow> string \<Rightarrow> string \<Rightarrow> ('e, 's, 'h) world
     \<Rightarrow> ('e, 's, 'h) world" where
  "proxy_stream eng c rtspServer proxiedStreamURL streamName w =
     (let (sms, e1) = ProxyServerMediaSession_createNew eng (engine_state w) rtspServer
                        proxiedStreamURL streamName (username c) (password c)
                        (tunnelOverHTTPPortNum c) (verbosityLevel c);
          e2 = addServerMediaSession eng e1 rtspServer sms;
          proxyStreamURL = rtspURL eng e2 rtspServer sms
      in \<lparr>engine_state = e2,
          trace = trace w @
            [CreateSession rtspServer proxiedStreamURL streamName (username c) (password c)
               (tunnelOverHTTPPortNum c) (verbosityLevel c),
             AddSession rtspServer sms,
             Out (''RTSP stream, proxying the stream '' @ [CHR 0x22]), Out proxiedStreamURL,
             Out (CHR 0x22 # newline),
             Out (CHR 0x09 # ''Play this stream using the URL: ''), Out proxyStreamURL,
             Out newline]\<rparr>)"

text \<open>
  \<^verbatim>\<open>s.c_str()\<close> read as a \<^verbatim>\<open>char const*\<close>: the characters before the first NUL
  byte (all of them when there is none).
\<close>

definition c_str :: "string \<Rightarrow> string" where
  "c_str s = takeWhile (\<lambda>ch. ch \<noteq> CHR 0x00) s"

text \<open>
  The \<^verbatim>\<open>while (std::getline(input, line))\<close> loop, on the lines that \<^verbatim>\<open>getline\<close>
  yields. The session is created with \<^verbatim>\<open>line.c_str()\<close> and \<^verbatim>\<open>name.c_str()\<close>;
  \<^verbatim>\<open>url\<close> is computed and not used. A fault ends the loop in the state reached so
  far.
\<close>

fun read_definitions ::
  "('e, 's, 'h) engine \<Rightarrow> config \<Rightarrow> 's \<Rightarrow> string list \<Rightarrow> ('e, 's, 'h) world
     \<Rightarrow> (fault \<times> ('e, 's, 'h) world) + ('e, 's, 'h) world" where
  "read_definitions eng c rtspServer [] w = Inr w"
| "read_definitions eng c rtspServer (line # rest) w =
     (case front line of
        Inl f \<Rightarrow> Inl (f, w)
      | Inr ch \<Rightarrow>
          if ch = CHR ''#'' then read_definitions eng c rtspServer rest w
          else if line = [] then read_definitions eng c rtspServer rest w
          else
            let pos = find_space line
            in case substr line 0 pos of
                 Inl f \<Rightarrow> Inl (f, w)
               | Inr url \<Rightarrow>
                   (case substr_from line (size_t_succ pos) of
                      Inl f \<Rightarrow> Inl (f, w)
                    | Inr name \<Rightarrow>
                        let proxiedStreamURL = c_str line;
                            streamName = c_str name
                        in read_definitions eng c rtspServer rest
                             (proxy_stream eng c rtspServer proxiedStreamURL streamName w)))"

subsection \<open>The main program\<close>

text \<open>
  How a run ends: \<^verbatim>\<open>exit\<close>, the event loop (which does not return), or a fault;
  in each case with the state and the trace at that point.
\<close>

datatype outcome = Exited exit | Serving | Undefined fault

definition usage :: "string \<Rightarrow> ('e, 's, 'h) world \<Rightarrow> outcome \<times> ('e, 's, 'h) world" where
  "usage progName w =
     (Exited (Exit 1),
      emit [Out ''Usage: '', Out progName, Out '' [-v|-V]'', Out '' [-p <rtspServer-port>]'',
            Out '' <rtsp_url_definition_file>''] w)"

text \<open>The state after the first line of output.\<close>

definition startup :: "'e \<Rightarrow> ('e, 's, 'h) world" where
  "startup e0 = emit [Out (''RTSP Proxy Server'' @ newline)] \<lparr>engine_state = e0, trace = []\<rparr>"

text \<open>
  \<^verbatim>\<open>main\<close>, for \<^verbatim>\<open>argc \<ge> 1\<close>: \<open>progName\<close> is \<^verbatim>\<open>argv[0]\<close> and \<open>args\<close> the
  rest of \<^verbatim>\<open>argv\<close>. \<open>files\<close> gives the lines of the file at a path, or \<open>None\<close>
  when \<^verbatim>\<open>input.is_open()\<close> is false.
\<close>

definition main ::
  "('e, 's, 'h) engine \<Rightarrow> (string \<Rightarrow> string list option) \<Rightarrow> 'e \<Rightarrow> string \<Rightarrow> string list
     \<Rightarrow> outcome \<times> ('e, 's, 'h) world" where
  "main eng files e0 progName args =
     (let w0 = startup e0
      in case parse_args args of
           Inl e \<Rightarrow> usage progName w0
         | Inr (c, path) \<Rightarrow>
             (case create_server eng c w0 of
                (Inl e, c, w1) \<Rightarrow> (Exited e, w1)
              | (Inr rtspServer, c, w1) \<Rightarrow>
                  (case files path of
                     None \<Rightarrow> (Serving, emit [DoEventLoop] w1)
                   | Some lines \<Rightarrow>
                       (case read_definitions eng c rtspServer lines w1 of
                          Inl (f, w2) \<Rightarrow> (Undefined f, w2)
                        | Inr w2 \<Rightarrow> (Serving, emit [DoEventLoop] w2)))))"

subsection \<open>Notions used in the statements\<close>

text \<open>A \<^verbatim>\<open>-v\<close> or \<^verbatim>\<open>-V\<close> option, as the loop recognises it.\<close>

definition verbosity_flag :: "string \<Rightarrow> bool" where
  "verbosity_flag opt =
     (c_at opt 0 = CHR ''-'' \<and> (c_at opt 1 = CHR ''v'' \<or> c_at opt 1 = CHR ''V''))"

text \<open>
  An argument list with no path for the definition file: every argument begins with a
  dash or is the argument that follows a \<^verbatim>\<open>-p\<close>.
\<close>

fun missing_path :: "string list \<Rightarrow> bool" where
  "missing_path [] = True"
| "missing_path [opt] = (c_at opt 0 = CHR ''-'')"
| "missing_path (opt # tok # rest) =
     (c_at opt 0 = CHR ''-'' \<and>
      (if c_at opt 1 = CHR ''p'' then missing_path rest else missing_path (tok # rest)))"

text \<open>The ports of the server creations in a trace, in order.\<close>

fun attempted_ports :: "('s, 'h) event list \<Rightarrow> 16 word list" where
  "attempted_ports [] = []"
| "attempted_ports (CreateServer port # evs) = port # attempted_ports evs"
| "attempted_ports (ev # evs) = attempted_ports evs"

text \<open>
  The URL and the stream name of the session creations in a trace, in order, and the
  number of registrations.
\<close>

fun session_requests :: "('s, 'h) event list \<Rightarrow> (string \<times> string) list" where
  "session_requests [] = []"
| "session_requests (CreateSession srv url name user pass port v # evs) =
     (url, name) # session_requests evs"
| "session_requests (ev # evs) = session_requests evs"

fun registrations :: "('s, 'h) event list \<Rightarrow> nat" where
  "registrations [] = 0"
| "registrations (AddSession srv sms # evs) = Suc (registrations evs)"
| "registrations (ev # evs) = registrations evs"

text \<open>
  An engine for the examples: a server can be created on the ports of \<open>free\<close> only, the
  engine's state is the reason of its last failure, a server is known by its port and a
  session by its stream name.
\<close>

definition example_engine :: "16 word list \<Rightarrow> (string, 16 word, string) engine" where
  "example_engine free =
     \<lparr>RTSPServer_createNew =
        (\<lambda>e port. if port \<in> set free then (Some port, e) else (None, ''bind() error'')),
      getResultMsg = (\<lambda>e. e),
      ProxyServerMediaSession_createNew = (\<lambda>e srv url name user pass port v. (name, e)),
      addServerMediaSession = (\<lambda>e srv sms. e),
      rtspURL = (\<lambda>e srv sms. ''rtsp://proxy/'' @ sms)\<rparr>"

text \<open>A file system with one readable file.\<close>

definition one_file :: "string \<Rightarrow> string list \<Rightarrow> string \<Rightarrow> string list option" where
  "one_file path lines p = (if p = path then Some lines else None)"

section \<open>Lemmas\<close>

subsection \<open>The conversion of the port number\<close>

lemma isdigit_not_isspace: "isdigit ch \<Longrightarrow> \<not> isspace ch"
  by (auto simp: isdigit_def isspace_def)

lemma isdigit_not_sign: "isdigit ch \<Longrightarrow> ch \<noteq> CHR ''-'' \<and> ch \<noteq> CHR ''+''"
  by (auto simp: isdigit_def)

lemma c_at_Cons_0: "c_at (ch # s) 0 = ch"
  by (simp add: c_at_def)

text \<open>On a token of decimal digits the conversion stores the saturated value, narrowed.\<close>

lemma sscanf_hu_digits:
  assumes "tok \<noteq> []" and "list_all isdigit tok"
  shows "sscanf_hu tok = Some (of_nat (min (decimal_value tok) ULONG_MAX))"
    and "c_at tok 0 \<noteq> CHR ''-''"
proof -
  from assms obtain d ds where tok: "tok = d # ds" and d: "isdigit d"
    by (cases tok) auto
  from d have sp: "dropWhile isspace tok = tok"
    by (simp add: tok isdigit_not_isspace)
  from assms(2) have tw: "takeWhile isdigit tok = tok"
    by (simp add: list_all_iff)
  from d show "c_at tok 0 \<noteq> CHR ''-''"
    by (simp add: tok c_at_Cons_0 isdigit_not_sign)
  from d have sign: "c_at tok 0 \<noteq> CHR ''-''" "c_at tok 0 \<noteq> CHR ''+''"
    by (simp_all add: tok c_at_Cons_0 isdigit_not_sign)
  have "strtoul10 False tok = min (decimal_value tok) ULONG_MAX"
    by (simp add: strtoul10_def Let_def min_def)
  then have "(if tok = [] then None else Some (of_nat (strtoul10 False tok) :: 16 word))
                 = Some (of_nat (min (decimal_value tok) ULONG_MAX))"
    using assms(1) by simp
  moreover have "sscanf_hu tok =
      (if takeWhile isdigit tok = [] then None
       else Some (of_nat (strtoul10 False (takeWhile isdigit tok))))"
    using sp sign by (simp add: sscanf_hu_def Let_def)
  ultimately show "sscanf_hu tok = Some (of_nat (min (decimal_value tok) ULONG_MAX))"
    unfolding tw by simp
qed

text \<open>
  The same for any token, read as white space, an optional sign, a run of digits and what
  follows them: the conversion fails when there is no digit, and stores 0 when the value
  of the digits is a multiple of 65536 within \<^verbatim>\<open>unsigned long\<close>.
\<close>

lemma dropWhile_stop: "t = [] \<or> \<not> P (hd t) \<Longrightarrow> dropWhile P t = t"
  by (cases t) auto

lemma takeWhile_stop: "t = [] \<or> \<not> P (hd t) \<Longrightarrow> takeWhile P t = []"
  by (cases t) auto

lemma sscanf_hu_parts:
  assumes ws: "list_all isspace ws"
    and sg: "sg = [] \<or> sg = ''+'' \<or> sg = ''-''"
    and ds: "list_all isdigit ds"
    and trailing: "trailing = [] \<or> \<not> isdigit (hd trailing)"
    and canon: "sg = [] \<and> ds = [] \<longrightarrow>
                  trailing = [] \<or> (\<not> isspace (hd trailing) \<and> hd trailing \<noteq> CHR ''+'' \<and> hd trailing \<noteq> CHR ''-'')"
  shows "sscanf_hu (ws @ sg @ ds @ trailing) =
           (if ds = [] then None else Some (of_nat (strtoul10 (sg = ''-'') ds)))"
proof -
  let ?t = "sg @ ds @ trailing"
  have digits: "takeWhile isdigit (ds @ trailing) = ds"
    using ds trailing by (simp add: takeWhile_append2 list_all_iff takeWhile_stop)
  have stop: "?t = [] \<or> \<not> isspace (hd ?t)"
  proof (cases "sg = []")
    case False
    with sg show ?thesis by (auto simp: isspace_def)
  next
    case True
    show ?thesis
    proof (cases ds)
      case Nil
      with True canon show ?thesis by auto
    next
      case (Cons d ds')
      with ds True show ?thesis by (simp add: isdigit_not_isspace)
    qed
  qed
  have skip: "dropWhile isspace (ws @ ?t) = ?t"
    using ws dropWhile_stop [where P = isspace, OF stop] by (simp add: dropWhile_append2 list_all_iff)
  have both: "(c_at ?t 0 = CHR ''-'') = (sg = ''-'')
       \<and> (if c_at ?t 0 = CHR ''-'' \<or> c_at ?t 0 = CHR ''+'' then tl ?t else ?t) = ds @ trailing"
  proof -
    consider "sg = ''-''" | "sg = ''+''" | "sg = []" using sg by blast
    then show ?thesis
    proof cases
      case 1
      then show ?thesis by (simp add: c_at_def)
    next
      case 2
      then show ?thesis by (simp add: c_at_def)
    next
      case 3
      show ?thesis
      proof (cases ds)
        case (Cons d ds')
        with ds have "isdigit d" by simp
        with 3 Cons show ?thesis by (simp add: c_at_Cons_0 isdigit_not_sign)
      next
        case Nil
        show ?thesis
        proof (cases trailing)
          case Nil
          with 3 \<open>ds = []\<close> show ?thesis by (simp add: c_at_def)
        next
          case (Cons m junk)
          with 3 \<open>ds = []\<close> canon show ?thesis by (simp add: c_at_Cons_0)
        qed
      qed
    qed
  qed
  from both have neg: "(c_at ?t 0 = CHR ''-'') = (sg = ''-'')"
    and unsigned: "(if c_at ?t 0 = CHR ''-'' \<or> c_at ?t 0 = CHR ''+'' then tl ?t else ?t)
                     = ds @ trailing"
    by blast+
  have "sscanf_hu (ws @ ?t) =
      (if takeWhile isdigit
            (if c_at ?t 0 = CHR ''-'' \<or> c_at ?t 0 = CHR ''+'' then tl ?t else ?t) = []
       then None
       else Some (of_nat (strtoul10 (c_at ?t 0 = CHR ''-'')
              (takeWhile isdigit
                (if c_at ?t 0 = CHR ''-'' \<or> c_at ?t 0 = CHR ''+'' then tl ?t else ?t)))))"
    by (simp only: sscanf_hu_def Let_def skip)
  also have "\<dots> = (if takeWhile isdigit (ds @ trailing) = [] then None
       else Some (of_nat (strtoul10 (c_at ?t 0 = CHR ''-'') (takeWhile isdigit (ds @ trailing)))))"
    by (simp only: unsigned)
  also have "\<dots> = (if ds = [] then None else Some (of_nat (strtoul10 (sg = ''-'') ds)))"
    by (simp only: digits neg)
  finally show ?thesis .
qed

lemma strtoul10_multiple:
  assumes "decimal_value ds \<le> ULONG_MAX" and "decimal_value ds mod 65536 = 0"
  shows "(of_nat (strtoul10 neg ds) :: 16 word) = 0"
proof -
  let ?v = "decimal_value ds"
  from assms(2) have v: "65536 dvd ?v" by (simp add: dvd_eq_mod_eq_0)
  have m: "(65536::nat) dvd 2 ^ 64" by simp
  have "65536 dvd strtoul10 neg ds"
  proof (cases neg)
    case False
    with assms(1) v show ?thesis by (simp add: strtoul10_def)
  next
    case True
    from v m have "65536 dvd (2 ^ 64 - ?v)"
      by (rule_tac dvd_diff_nat) simp_all
    with m have "65536 dvd (2 ^ 64 - ?v) mod 2 ^ 64"
      by (simp add: dvd_mod)
    with True assms(1) show ?thesis
      by (simp add: strtoul10_def ULONG_MAX_def)
  qed
  then have "strtoul10 neg ds mod 65536 = 0" by (simp add: dvd_eq_mod_eq_0)
  then have "unat (of_nat (strtoul10 neg ds) :: 16 word) = 0"
    by (simp add: unat_of_nat)
  then show ?thesis by (simp add: unat_eq_0)
qed

subsection \<open>The option loop\<close>

text \<open>Options that the loop has accepted do not matter to what it does afterwards.\<close>

lemma parse_options_append:
  "parse_options c pre = Inr (c', []) \<Longrightarrow> parse_options c (pre @ rest) = parse_options c' rest"
proof (induction c pre rule: parse_options.induct)
  case (1 c)
  then show ?case by simp
next
  case (2 c opt args)
  show ?case
  proof (cases "c_at opt 0 \<noteq> CHR ''-''")
    case True
    with "2.prems" show ?thesis by simp
  next
    case dash: False
    show ?thesis
    proof (cases "c_at opt 1 = CHR ''v''")
      case True
      with dash "2.prems" "2.IH"(1) show ?thesis by simp
    next
      case nv: False
      show ?thesis
      proof (cases "c_at opt 1 = CHR ''V''")
        case True
        with dash nv "2.prems" "2.IH"(2) show ?thesis by simp
      next
        case nV: False
        show ?thesis
        proof (cases "c_at opt 1 = CHR ''p''")
          case False
          with dash nv nV "2.prems" show ?thesis by (simp add: usage_exit_def)
        next
          case p: True
          show ?thesis
          proof (cases args)
            case Nil
            with dash nv nV p "2.prems" show ?thesis by (simp add: usage_exit_def)
          next
            case (Cons tok args')
            with dash nv nV p "2.prems" obtain n where
              tok: "c_at tok 0 \<noteq> CHR ''-''" "sscanf_hu tok = Some n" "n > 0"
              and run: "parse_options (c\<lparr>rtspServerPortNum := n\<rparr>) args' = Inr (c', [])"
              by (auto simp: usage_exit_def split: if_splits option.splits)
            from "2.IH"(3) [OF _ _ _ p Cons tok(1) tok(2) tok(3) run] dash nv nV
            have "parse_options (c\<lparr>rtspServerPortNum := n\<rparr>) (args' @ rest) = parse_options c' rest"
              by simp
            with dash nv nV p Cons tok show ?thesis by simp
          qed
        qed
      qed
    qed
  qed
qed

lemma parse_options_verbosity_flags:
  "list_all verbosity_flag post \<Longrightarrow>
   \<exists>v. parse_options c (post @ rest) = parse_options (c\<lparr>verbosityLevel := v\<rparr>) rest"
proof (induction post arbitrary: c)
  case Nil
  have "c\<lparr>verbosityLevel := verbosityLevel c\<rparr> = c" by simp
  then show ?case by (metis append_Nil)
next
  case (Cons opt post)
  from Cons.prems have flag: "verbosity_flag opt" and post: "list_all verbosity_flag post"
    by simp_all
  from flag obtain v0 where
    "parse_options c ((opt # post) @ rest) = parse_options (c\<lparr>verbosityLevel := v0\<rparr>) (post @ rest)"
    by (auto simp: verbosity_flag_def)
  moreover from Cons.IH [OF post] obtain v where
    "parse_options (c\<lparr>verbosityLevel := v0\<rparr>) (post @ rest)
       = parse_options (c\<lparr>verbosityLevel := v0, verbosityLevel := v\<rparr>) rest"
    by blast
  ultimately show ?case by auto
qed

lemma parse_options_path:
  "c_at path 0 \<noteq> CHR ''-'' \<Longrightarrow> parse_options c (path # rest) = Inr (c, path # rest)"
  by simp

lemma parse_options_port_flag:
  "parse_options c (''-p'' # tok # rest) =
     (if c_at tok 0 \<noteq> CHR ''-'' then
        (case sscanf_hu tok of
           None \<Rightarrow> usage_exit
         | Some n \<Rightarrow> if n > 0 then parse_options (c\<lparr>rtspServerPortNum := n\<rparr>) rest else usage_exit)
      else usage_exit)"
  by (simp add: c_at_def)

lemma parse_args_after_flags:
  assumes "parse_options defaults pre = Inr (c, [])"
  shows "parse_args (pre @ opt # rest) =
           (case parse_options c (opt # rest) of
              Inl e \<Rightarrow> Inl e
            | Inr (c', []) \<Rightarrow> usage_exit
            | Inr (c', path # _) \<Rightarrow> Inr (c', path))"
  by (simp add: parse_args_def parse_options_append [OF assms])

lemma port_after_flags:
  assumes post: "list_all verbosity_flag post" and path: "c_at path 0 \<noteq> CHR ''-''"
  shows "\<exists>c'. parse_options (c\<lparr>rtspServerPortNum := n\<rparr>) (post @ path # rest) = Inr (c', path # rest)
            \<and> rtspServerPortNum c' = n"
proof -
  from parse_options_verbosity_flags [OF post] obtain v where
    "parse_options (c\<lparr>rtspServerPortNum := n\<rparr>) (post @ path # rest)
       = parse_options (c\<lparr>rtspServerPortNum := n, verbosityLevel := v\<rparr>) (path # rest)"
    by blast
  with path show ?thesis by simp
qed

lemma missing_path_parse_options:
  "missing_path args \<Longrightarrow>
   parse_options c args = Inl (Exit 1) \<or> (\<exists>c'. parse_options c args = Inr (c', []))"
proof (induction args arbitrary: c rule: missing_path.induct)
  case 1
  then show ?case by simp
next
  case (2 opt)
  then show ?case by (simp add: usage_exit_def)
next
  case (3 opt tok rest)
  from "3.prems" have dash: "c_at opt 0 = CHR ''-''" by simp
  show ?case
  proof (cases "c_at opt 1 = CHR ''p''")
    case True
    with "3.prems" have "missing_path rest" by simp
    from "3.IH"(1) [OF True this] dash True show ?thesis
      by (simp add: usage_exit_def split: option.splits)
  next
    case False
    with "3.prems" have "missing_path (tok # rest)" by simp
    from "3.IH"(2) [OF False this] dash False show ?thesis
      by (simp add: usage_exit_def)
  qed
qed

subsection \<open>The trace\<close>

lemma attempted_ports_append:
  "attempted_ports (evs @ evs') = attempted_ports evs @ attempted_ports evs'"
  by (induction evs rule: attempted_ports.induct) simp_all

lemma session_requests_append:
  "session_requests (evs @ evs') = session_requests evs @ session_requests evs'"
  by (induction evs rule: session_requests.induct) simp_all

lemma registrations_append:
  "registrations (evs @ evs') = registrations evs + registrations evs'"
  by (induction evs rule: registrations.induct) simp_all

lemma startup_simps:
  "engine_state (startup e0) = e0"
  "trace (startup e0) = [Out (''RTSP Proxy Server'' @ newline)]"
  by (simp_all add: startup_def emit_def)

subsection \<open>The three ways of creating the server\<close>

lemma create_server_first:
  assumes "RTSPServer_createNew eng (engine_state w) (rtspServerPortNum c) = (Some srv, e1)"
  shows "create_server eng c w =
           (Inr srv, c, \<lparr>engine_state = e1, trace = trace w @ [CreateServer (rtspServerPortNum c)]\<rparr>)"
  using assms by (simp add: create_server_def createRTSPServer_def)

lemma create_server_554_fails:
  assumes "RTSPServer_createNew eng (engine_state w) (rtspServerPortNum c) = (None, e1)"
    and "rtspServerPortNum c = 554"
  shows "create_server eng c w =
           (Inl (Exit 1), c,
            \<lparr>engine_state = e1,
             trace = trace w @ [CreateServer 554, Out ''Failed to create RTSP server: '',
                                Out (getResultMsg eng e1), Out newline]\<rparr>)"
  using assms by (simp add: create_server_def createRTSPServer_def emit_def)

lemma create_server_retry:
  assumes "RTSPServer_createNew eng (engine_state w) (rtspServerPortNum c) = (None, e1)"
    and "rtspServerPortNum c \<noteq> 554"
    and "RTSPServer_createNew eng e1 554 = (r2, e2)"
  shows "create_server eng c w =
           (let evs = trace w @
                  [CreateServer (rtspServerPortNum c),
                   Out ''Unable to create a RTSP server with port number '',
                   OutPort (rtspServerPortNum c), Out '': '', Out (getResultMsg eng e1),
                   Out newline,
                   Out (''Trying instead with the standard port numbers (554)...'' @ newline),
                   CreateServer 554]
            in case r2 of
                 None \<Rightarrow>
                   (Inl (Exit 1), c\<lparr>rtspServerPortNum := 554\<rparr>,
                    \<lparr>engine_state = e2,
                     trace = evs @ [Out ''Failed to create RTSP server: '',
                                    Out (getResultMsg eng e2), Out newline]\<rparr>)
               | Some srv \<Rightarrow>
                   (Inr srv, c\<lparr>rtspServerPortNum := 554\<rparr>, \<lparr>engine_state = e2, trace = evs\<rparr>))"
  using assms by (simp add: create_server_def createRTSPServer_def emit_def split: option.splits)

lemma create_server_sessions:
  "create_server eng c w = (r, c1, w1) \<Longrightarrow>
   session_requests (trace w1) = session_requests (trace w)
   \<and> registrations (trace w1) = registrations (trace w)"
  by (auto simp: create_server_def createRTSPServer_def emit_def Let_def
        session_requests_append registrations_append
      split: prod.splits option.splits if_splits)

subsection \<open>The loop over the lines\<close>

lemma proxy_stream_trace:
  "\<exists>sms e. trace (proxy_stream eng c srv url name w) =
      trace w @
      [CreateSession srv url name (username c) (password c) (tunnelOverHTTPPortNum c)
         (verbosityLevel c),
       AddSession srv sms,
       Out (''RTSP stream, proxying the stream '' @ [CHR 0x22]), Out url,
       Out (CHR 0x22 # newline),
       Out (CHR 0x09 # ''Play this stream using the URL: ''), Out (rtspURL eng e srv sms),
       Out newline]"
  by (auto simp: proxy_stream_def Let_def split: prod.splits)

lemma proxy_stream_observed:
  "attempted_ports (trace (proxy_stream eng c srv url name w)) = attempted_ports (trace w)"
  "session_requests (trace (proxy_stream eng c srv url name w))
     = session_requests (trace w) @ [(url, name)]"
  "registrations (trace (proxy_stream eng c srv url name w)) = Suc (registrations (trace w))"
  using proxy_stream_trace [of eng c srv url name w]
  by (auto simp: attempted_ports_append session_requests_append registrations_append)

lemma length_takeWhile_neq:
  "a \<in> set xs \<Longrightarrow> length (takeWhile (\<lambda>x. x \<noteq> a) xs) < length xs"
  by (induction xs) auto

lemma size_t_succ_find_space: "size_t_succ (find_space line) \<le> length line"
proof (cases "CHR '' '' \<in> set line")
  case True
  then have "length (takeWhile (\<lambda>ch. ch \<noteq> CHR '' '') line) < length line"
    by (rule length_takeWhile_neq)
  moreover have "size_t_succ k \<le> k + 1" for k
    by (simp add: size_t_succ_def)
  ultimately show ?thesis
    using True by (metis Suc_eq_plus1 Suc_leI find_space_def le_trans)
next
  case False
  then show ?thesis by (simp add: find_space_def npos_def size_t_succ_def)
qed

lemma read_definitions_empty_line:
  "read_definitions eng c srv ([] # rest) w = Inl (Front_of_empty_string, w)"
  by (simp add: front_def)

lemma read_definitions_comment:
  "read_definitions eng c srv ((CHR ''#'' # body) # rest) w = read_definitions eng c srv rest w"
  by (simp add: front_def)

lemma read_definitions_entry:
  assumes "line \<noteq> []" and "hd line \<noteq> CHR ''#''"
  shows "read_definitions eng c srv (line # rest) w =
           read_definitions eng c srv rest
             (proxy_stream eng c srv (c_str line)
                (c_str (drop (size_t_succ (find_space line)) line)) w)"
proof -
  from assms obtain ch s where line: "line = ch # s" and ch: "ch \<noteq> CHR ''#''"
    by (cases line) auto
  have "substr line 0 (find_space line) = Inr (take (find_space line) line)"
    by (simp add: substr_def)
  moreover have "substr_from line (size_t_succ (find_space line))
                   = Inr (drop (size_t_succ (find_space line)) line)"
    using size_t_succ_find_space [of line] by (simp add: substr_from_def)
  moreover have "front line = Inr ch"
    by (simp add: front_def line)
  ultimately show ?thesis
    using ch assms(1) by (simp add: line [symmetric] Let_def)
qed

text \<open>
  On a file without empty lines the loop creates one session for each line that is not a
  comment, in the order of the file, for the whole line as URL and the part after the
  first space as name (both as C strings).
\<close>

lemma read_definitions_requests:
  assumes "\<forall>line\<in>set lines. line \<noteq> []"
  shows "\<exists>w'. read_definitions eng c srv lines w = Inr w'
            \<and> session_requests (trace w') =
                session_requests (trace w) @
                map (\<lambda>line. (c_str line, c_str (drop (size_t_succ (find_space line)) line)))
                  (filter (\<lambda>line. hd line \<noteq> CHR ''#'') lines)
            \<and> attempted_ports (trace w') = attempted_ports (trace w)"
  using assms
proof (induction lines arbitrary: w)
  case Nil
  then show ?case by simp
next
  case (Cons line lines)
  from Cons.prems have ne: "line \<noteq> []" and rest: "\<forall>line\<in>set lines. line \<noteq> []"
    by simp_all
  show ?case
  proof (cases "hd line = CHR ''#''")
    case True
    with ne obtain body where "line = CHR ''#'' # body"
      by (cases line) auto
    with Cons.IH [OF rest, of w] True show ?thesis
      by (simp only: read_definitions_comment) simp
  next
    case False
    from Cons.IH [OF rest, of "proxy_stream eng c srv (c_str line)
        (c_str (drop (size_t_succ (find_space line)) line)) w"]
    show ?thesis
      using False by (simp only: read_definitions_entry [OF ne False]) (simp add: proxy_stream_observed)
  qed
qed

lemma read_definitions_ports:
  "read_definitions eng c srv lines w = Inr w' \<Longrightarrow>
   attempted_ports (trace w') = attempted_ports (trace w)"
proof (induction lines arbitrary: w)
  case Nil
  then show ?case by simp
next
  case (Cons line lines)
  show ?case
  proof (cases "line = []")
    case True
    with Cons.prems show ?thesis by (simp add: front_def)
  next
    case ne: False
    show ?thesis
    proof (cases "hd line = CHR ''#''")
      case True
      with ne obtain body where "line = CHR ''#'' # body"
        by (cases line) auto
      with Cons show ?thesis by (simp only: read_definitions_comment)
    next
      case False
      from Cons.prems have "read_definitions eng c srv lines
          (proxy_stream eng c srv (c_str line)
             (c_str (drop (size_t_succ (find_space line)) line)) w) = Inr w'"
        by (simp only: read_definitions_entry [OF ne False])
      from Cons.IH [OF this] show ?thesis
        by (simp add: proxy_stream_observed)
    qed
  qed
qed

text \<open>The same when the loop ends at a fault, for the trace up to the fault.\<close>

lemma read_definitions_fault_ports:
  "read_definitions eng c srv lines w = Inl (f, w') \<Longrightarrow>
   attempted_ports (trace w') = attempted_ports (trace w)"
proof (induction lines arbitrary: w)
  case Nil
  then show ?case by simp
next
  case (Cons line lines)
  show ?case
  proof (cases "line = []")
    case True
    with Cons.prems show ?thesis by (simp add: front_def)
  next
    case ne: False
    show ?thesis
    proof (cases "hd line = CHR ''#''")
      case True
      with ne obtain body where "line = CHR ''#'' # body"
        by (cases line) auto
      with Cons show ?thesis by (simp only: read_definitions_comment)
    next
      case False
      from Cons.prems have "read_definitions eng c srv lines
          (proxy_stream eng c srv (c_str line)
             (c_str (drop (size_t_succ (find_space line)) line)) w) = Inl (f, w')"
        by (simp only: read_definitions_entry [OF ne False])
      from Cons.IH [OF this] show ?thesis
        by (simp add: proxy_stream_observed)
    qed
  qed
qed

subsection \<open>The main program\<close>

lemma parse_args_Inl_main:
  "parse_args args = Inl e \<Longrightarrow> fst (main eng files e0 progName args) = Exited (Exit 1)"
  by (simp add: main_def usage_def Let_def)

lemma main_parsed:
  assumes "parse_args args = Inr (c, path)"
  shows "main eng files e0 progName args =
           (case create_server eng c (startup e0) of
              (Inl e, c1, w1) \<Rightarrow> (Exited e, w1)
            | (Inr srv, c1, w1) \<Rightarrow>
                (case files path of
                   None \<Rightarrow> (Serving, emit [DoEventLoop] w1)
                 | Some lines \<Rightarrow>
                     (case read_definitions eng c1 srv lines w1 of
                        Inl (f, w2) \<Rightarrow> (Undefined f, w2)
                      | Inr w2 \<Rightarrow> (Serving, emit [DoEventLoop] w2))))"
  using assms by (simp add: main_def)

text \<open>The definitions unfolded to run the program on an example.\<close>

lemmas run_defs =
  main_def parse_args_def c_at_def startup_def emit_def create_server_def
  createRTSPServer_def example_engine_def one_file_def front_def find_space_def substr_def
  substr_from_def size_t_succ_def npos_def c_str_def proxy_stream_def usage_exit_def usage_def
  Let_def

lemmas scan_defs =
  sscanf_hu_def isspace_def isdigit_def strtoul10_def decimal_value_def digit_value_def
  ULONG_MAX_def

section \<open>The claims\<close>

subsection \<open>C1: one session for each line of the definition file\<close>

text \<open>
  Claim C1: for a definition file with N well-formed, non-skipped lines the loader makes N
  session creations in file order, each with the part of the line before the separator
  as source URL and the part after it as published name. The loop does make one creation
  per such line, in order (\<open>read_definitions_requests\<close>), and the name is the part
  after the first space, but the URL it passes is \<^verbatim>\<open>line.c_str()\<close>, the whole line:
  \<^verbatim>\<open>url\<close> is computed and never used. On the line of the spec's scenario the
  session is created for the URL \<^verbatim>\<open>rtsp://cam1.example.com/stream mycam\<close>.
\<close>

theorem C1_url_is_whole_line:
  "session_requests (trace (snd (main (example_engine [554])
       (one_file ''streams.txt'' [''rtsp://cam1.example.com/stream mycam''])
       [] ''proxy'' [''streams.txt''])))
   = [(''rtsp://cam1.example.com/stream mycam'', ''mycam'')]
   \<and> session_requests (trace (snd (main (example_engine [554])
       (one_file ''streams.txt'' [''rtsp://cam1.example.com/stream mycam''])
       [] ''proxy'' [''streams.txt''])))
   \<noteq> [(''rtsp://cam1.example.com/stream'', ''mycam'')]"
  by (simp add: run_defs)

subsection \<open>C2: a line without a separator\<close>

text \<open>
  Claim C2, as amended: a line that is not empty, does not begin with \<^verbatim>\<open>#\<close> and
  contains no space is not rejected; its session is created with \<^verbatim>\<open>line.c_str()\<close>
  as source URL and, since \<^verbatim>\<open>npos + 1\<close> is 0, with \<^verbatim>\<open>line.c_str()\<close> as published
  name too (not with the empty name). That C string is the whole line when the line has no
  NUL byte, and its part before the first NUL byte otherwise.
\<close>

theorem C2_line_without_space:
  assumes "line \<noteq> []" and "hd line \<noteq> CHR ''#''" and "CHR '' '' \<notin> set line"
  shows "read_definitions eng c srv (line # rest) w =
           read_definitions eng c srv rest
             (proxy_stream eng c srv (c_str line) (c_str line) w)
       \<and> session_requests (trace (proxy_stream eng c srv (c_str line) (c_str line) w)) =
           session_requests (trace w) @ [(c_str line, c_str line)]
       \<and> (CHR 0x00 \<notin> set line \<longrightarrow> c_str line = line)"
proof -
  from assms(3) have "size_t_succ (find_space line) = 0"
    by (simp add: find_space_def npos_def size_t_succ_def)
  with read_definitions_entry [OF assms(1,2), of eng c srv rest w]
  have "read_definitions eng c srv (line # rest) w =
          read_definitions eng c srv rest (proxy_stream eng c srv (c_str line) (c_str line) w)"
    by simp
  moreover have "CHR 0x00 \<notin> set line \<longrightarrow> c_str line = line"
    by (auto simp: c_str_def takeWhile_eq_all_conv)
  ultimately show ?thesis
    by (simp add: proxy_stream_observed)
qed

text \<open>
  Claim C2, the amended statement at the line \<^verbatim>\<open>rtsp://cam1.example.com/stream\<close>, and
  at a line of three bytes, the second of them NUL.
\<close>

theorem C2_line_without_space_witness:
  "''rtsp://cam1.example.com/stream'' \<noteq> []
   \<and> hd ''rtsp://cam1.example.com/stream'' \<noteq> CHR ''#''
   \<and> CHR '' '' \<notin> set ''rtsp://cam1.example.com/stream''
   \<and> read_definitions (example_engine [554]) defaults 554 [''rtsp://cam1.example.com/stream'']
        \<lparr>engine_state = [], trace = []\<rparr>
      = Inr (proxy_stream (example_engine [554]) defaults 554 ''rtsp://cam1.example.com/stream''
               ''rtsp://cam1.example.com/stream'' \<lparr>engine_state = [], trace = []\<rparr>)
   \<and> session_requests (trace (proxy_stream (example_engine [554]) defaults 554
         ''rtsp://cam1.example.com/stream'' ''rtsp://cam1.example.com/stream''
         \<lparr>engine_state = [], trace = []\<rparr>))
      = [(''rtsp://cam1.example.com/stream'', ''rtsp://cam1.example.com/stream'')]
   \<and> read_definitions (example_engine [554]) defaults 554 [[CHR ''a'', CHR 0x00, CHR ''b'']]
        \<lparr>engine_state = [], trace = []\<rparr>
      = Inr (proxy_stream (example_engine [554]) defaults 554 ''a'' ''a''
               \<lparr>engine_state = [], trace = []\<rparr>)"
proof -
  have line: "''rtsp://cam1.example.com/stream'' \<noteq> []"
    "hd ''rtsp://cam1.example.com/stream'' \<noteq> CHR ''#''"
    "CHR '' '' \<notin> set ''rtsp://cam1.example.com/stream''"
    by simp_all
  have nul: "[CHR ''a'', CHR 0x00, CHR ''b''] \<noteq> []"
    "hd [CHR ''a'', CHR 0x00, CHR ''b''] \<noteq> CHR ''#''"
    "CHR '' '' \<notin> set [CHR ''a'', CHR 0x00, CHR ''b'']"
    by simp_all
  have whole: "c_str ''rtsp://cam1.example.com/stream'' = ''rtsp://cam1.example.com/stream''"
    by (simp add: c_str_def)
  have cut: "c_str [CHR ''a'', CHR 0x00, CHR ''b''] = ''a''"
    by (simp add: c_str_def)
  from C2_line_without_space [OF line, of "example_engine [554]" defaults 554 "[]"
      "\<lparr>engine_state = [], trace = []\<rparr>"]
    C2_line_without_space [OF nul, of "example_engine [554]" defaults 554 "[]"
      "\<lparr>engine_state = [], trace = []\<rparr>"]
  show ?thesis
    using line by (simp add: whole cut)
qed

text \<open>
  Claim C2 as stated fails: for the file whose only line is
  \<^verbatim>\<open>rtsp://cam1.example.com/stream\<close> the one session is created with that line as
  its published name, not with the empty string.
\<close>

theorem C2_name_is_whole_line:
  "session_requests (trace (snd (main (example_engine [554])
       (one_file ''streams.txt'' [''rtsp://cam1.example.com/stream''])
       [] ''proxy'' [''streams.txt''])))
   = [(''rtsp://cam1.example.com/stream'', ''rtsp://cam1.example.com/stream'')]
   \<and> session_requests (trace (snd (main (example_engine [554])
       (one_file ''streams.txt'' [''rtsp://cam1.example.com/stream''])
       [] ''proxy'' [''streams.txt''])))
   \<noteq> [(''rtsp://cam1.example.com/stream'', [])]"
  by (simp add: run_defs)

subsection \<open>C3: comment lines and empty lines\<close>

text \<open>
  Claim C3: an empty line or a line beginning with \<^verbatim>\<open>#\<close> is skipped without error
  and without any out-of-bounds string access. A comment line is skipped
  (\<open>read_definitions_comment\<close>), but on an empty line the loop calls
  \<^verbatim>\<open>line.front()\<close> before it tests \<^verbatim>\<open>line == ""\<close>, outside the precondition of
  \<^verbatim>\<open>front\<close> (\<open>read_definitions_empty_line\<close>). A file of one comment line and one
  empty line does not reach the event loop in the model.
\<close>

theorem C3_blank_line_front:
  "fst (main (example_engine [554]) (one_file ''streams.txt'' [''# cameras'', ''''])
          [] ''proxy'' [''streams.txt''])
   = Undefined Front_of_empty_string"
  by (simp add: run_defs)

subsection \<open>C4: the fallback to port 554\<close>

text \<open>
  Claim C4: the first attempt to create the server uses the configured port; there is a
  second attempt, on port 554, exactly when the first failed and the configured port is
  not 554; when no attempt succeeds the program prints
  \<^verbatim>\<open>Failed to create RTSP server: \<close> with the engine's result message and exits
  with status 1, and there is no other attempt. Here \<open>r1\<close> and \<open>r2\<close> are what the
  engine answers to the first and to the second attempt.
\<close>

theorem C4_server_fallback:
  fixes eng :: "('e, 's, 'h) engine"
  assumes args: "parse_args args = Inr (c, path)"
    and first: "RTSPServer_createNew eng e0 (rtspServerPortNum c) = (r1, e1)"
    and second: "RTSPServer_createNew eng e1 554 = (r2, e2)"
  shows "attempted_ports (trace (snd (main eng files e0 progName args))) =
           (if r1 = None \<and> rtspServerPortNum c \<noteq> 554 then [rtspServerPortNum c, 554]
            else [rtspServerPortNum c])
       \<and> (r1 = None \<and> rtspServerPortNum c = 554 \<longrightarrow>
            main eng files e0 progName args =
              (Exited (Exit 1),
               \<lparr>engine_state = e1,
                trace = [Out (''RTSP Proxy Server'' @ newline), CreateServer 554,
                         Out ''Failed to create RTSP server: '', Out (getResultMsg eng e1),
                         Out newline]\<rparr>))
       \<and> (r1 = None \<and> rtspServerPortNum c \<noteq> 554 \<and> r2 = None \<longrightarrow>
            main eng files e0 progName args =
              (Exited (Exit 1),
               \<lparr>engine_state = e2,
                trace = [Out (''RTSP Proxy Server'' @ newline),
                         CreateServer (rtspServerPortNum c),
                         Out ''Unable to create a RTSP server with port number '',
                         OutPort (rtspServerPortNum c), Out '': '', Out (getResultMsg eng e1),
                         Out newline,
                         Out (''Trying instead with the standard port numbers (554)...''
                              @ newline),
                         CreateServer 554,
                         Out ''Failed to create RTSP server: '', Out (getResultMsg eng e2),
                         Out newline]\<rparr>))
       \<and> (r1 \<noteq> None \<or> (rtspServerPortNum c \<noteq> 554 \<and> r2 \<noteq> None) \<longrightarrow>
            fst (main eng files e0 progName args) \<noteq> Exited (Exit 1))"
proof -
  let ?w0 = "startup e0 :: ('e, 's, 'h) world"
  let ?p = "rtspServerPortNum c"
  from first have first': "RTSPServer_createNew eng (engine_state ?w0) ?p = (r1, e1)"
    by (simp add: startup_simps)
  have loader: "attempted_ports (trace (snd
          (case files path of
             None \<Rightarrow> (Serving, emit [DoEventLoop] w1)
           | Some lines \<Rightarrow>
               (case read_definitions eng c1 srv lines w1 of
                  Inl (f, w2) \<Rightarrow> (Undefined f, w2)
                | Inr w2 \<Rightarrow> (Serving, emit [DoEventLoop] w2)))))
        = attempted_ports (trace w1)"
       and serving: "fst
          (case files path of
             None \<Rightarrow> (Serving, emit [DoEventLoop] w1)
           | Some lines \<Rightarrow>
               (case read_definitions eng c1 srv lines w1 of
                  Inl (f, w2) \<Rightarrow> (Undefined f, w2)
                | Inr w2 \<Rightarrow> (Serving, emit [DoEventLoop] w2))) \<noteq> Exited (Exit 1)"
    for c1 srv and w1 :: "('e, 's, 'h) world"
    by (auto simp: emit_def attempted_ports_append read_definitions_ports
          read_definitions_fault_ports split: option.splits sum.splits)
  show ?thesis
  proof (cases r1)
    case (Some srv)
    with first' have "create_server eng c ?w0 =
        (Inr srv, c, \<lparr>engine_state = e1, trace = trace ?w0 @ [CreateServer ?p]\<rparr>)"
      by (simp add: create_server_first)
    with Some show ?thesis
      by (simp add: main_parsed [OF args] loader serving startup_simps)
  next
    case None
    show ?thesis
    proof (cases "?p = 554")
      case True
      from first' None True have "create_server eng c ?w0 =
          (Inl (Exit 1), c,
           \<lparr>engine_state = e1,
            trace = trace ?w0 @ [CreateServer 554, Out ''Failed to create RTSP server: '',
                                 Out (getResultMsg eng e1), Out newline]\<rparr>)"
        by (simp add: create_server_554_fails)
      with None True show ?thesis
        by (simp add: main_parsed [OF args] startup_simps)
    next
      case False
      from first' None have "RTSPServer_createNew eng (engine_state ?w0) ?p = (None, e1)"
        by simp
      note retry = create_server_retry [OF this False second]
      show ?thesis
      proof (cases r2)
        case r2: None
        with None False show ?thesis
          by (simp add: main_parsed [OF args] retry startup_simps)
      next
        case (Some srv)
        with None False show ?thesis
          by (simp add: main_parsed [OF args] retry loader serving startup_simps)
      qed
    qed
  qed
qed

text \<open>
  Claim C4 on three runs: port 554 asked for and not free (one attempt, exit 1); port 9999
  asked for and no port free (two attempts, exit 1); port 9999 asked for and 554 free (two
  attempts, the event loop is reached).
\<close>

theorem C4_server_fallback_witness:
  "main (example_engine []) (one_file ''streams.txt'' []) [] ''proxy'' [''streams.txt'']
     = (Exited (Exit 1),
        \<lparr>engine_state = ''bind() error'',
         trace = [Out (''RTSP Proxy Server'' @ newline), CreateServer 554,
                  Out ''Failed to create RTSP server: '', Out ''bind() error'',
                  Out newline]\<rparr>)
   \<and> attempted_ports (trace (snd (main (example_engine []) (one_file ''streams.txt'' [])
          [] ''proxy'' [''-p'', ''9999'', ''streams.txt'']))) = [9999, 554]
   \<and> fst (main (example_engine []) (one_file ''streams.txt'' [])
          [] ''proxy'' [''-p'', ''9999'', ''streams.txt'']) = Exited (Exit 1)
   \<and> attempted_ports (trace (snd (main (example_engine [554]) (one_file ''streams.txt'' [])
          [] ''proxy'' [''-p'', ''9999'', ''streams.txt'']))) = [9999, 554]
   \<and> fst (main (example_engine [554]) (one_file ''streams.txt'' [])
          [] ''proxy'' [''-p'', ''9999'', ''streams.txt'']) \<noteq> Exited (Exit 1)"
proof -
  have args0: "parse_args [''streams.txt''] = Inr (defaults, ''streams.txt'')"
    by (simp add: parse_args_def c_at_def)
  have first0: "RTSPServer_createNew (example_engine [])
      [] (rtspServerPortNum defaults) = (None, ''bind() error'')"
    by (simp add: example_engine_def defaults_def)
  have args: "parse_args [''-p'', ''9999'', ''streams.txt'']
      = Inr (defaults\<lparr>rtspServerPortNum := 9999\<rparr>, ''streams.txt'')"
    by (simp add: parse_args_def c_at_def usage_exit_def scan_defs)
  have first: "RTSPServer_createNew (example_engine [])
      [] (rtspServerPortNum (defaults\<lparr>rtspServerPortNum := 9999\<rparr>)) = (None, ''bind() error'')"
    by (simp add: example_engine_def)
  have second: "RTSPServer_createNew (example_engine []) ''bind() error'' 554
      = (None, ''bind() error'')"
    by (simp add: example_engine_def)
  have first': "RTSPServer_createNew (example_engine [554])
      [] (rtspServerPortNum (defaults\<lparr>rtspServerPortNum := 9999\<rparr>)) = (None, ''bind() error'')"
    by (simp add: example_engine_def)
  have second': "RTSPServer_createNew (example_engine [554]) ''bind() error'' 554
      = (Some 554, ''bind() error'')"
    by (simp add: example_engine_def)
  have port0: "rtspServerPortNum defaults = 554"
    by (simp add: defaults_def)
  from C4_server_fallback [OF args0 first0 second, of "one_file ''streams.txt'' []" "''proxy''"]
  have run0: "main (example_engine []) (one_file ''streams.txt'' []) [] ''proxy'' [''streams.txt'']
     = (Exited (Exit 1),
        \<lparr>engine_state = ''bind() error'',
         trace = [Out (''RTSP Proxy Server'' @ newline), CreateServer 554,
                  Out ''Failed to create RTSP server: '', Out ''bind() error'',
                  Out newline]\<rparr>)"
    by (simp add: port0 example_engine_def)
  from C4_server_fallback [OF args first second, of "one_file ''streams.txt'' []" "''proxy''"]
  have run1: "attempted_ports (trace (snd (main (example_engine []) (one_file ''streams.txt'' [])
          [] ''proxy'' [''-p'', ''9999'', ''streams.txt'']))) = [9999, 554]
   \<and> fst (main (example_engine []) (one_file ''streams.txt'' [])
          [] ''proxy'' [''-p'', ''9999'', ''streams.txt'']) = Exited (Exit 1)"
    by simp
  from C4_server_fallback [OF args first' second', of "one_file ''streams.txt'' []" "''proxy''"]
  have run2: "attempted_ports (trace (snd (main (example_engine [554]) (one_file ''streams.txt'' [])
          [] ''proxy'' [''-p'', ''9999'', ''streams.txt'']))) = [9999, 554]
   \<and> fst (main (example_engine [554]) (one_file ''streams.txt'' [])
          [] ''proxy'' [''-p'', ''9999'', ''streams.txt'']) \<noteq> Exited (Exit 1)"
    by simp
  from run0 run1 run2 show ?thesis
    by (simp only: simp_thms)
qed

subsection \<open>C5: a definition file that cannot be opened\<close>

text \<open>
  Claim C5: when the definition file cannot be opened, the program does not fail: no
  session is created or registered, and the program enters the event loop.
\<close>

theorem C5_unreadable_file_no_sessions:
  assumes args: "parse_args args = Inr (c, path)"
    and server: "create_server eng c (startup e0) = (Inr srv, c1, w1)"
    and closed: "files path = None"
  shows "main eng files e0 progName args = (Serving, emit [DoEventLoop] w1)
       \<and> session_requests (trace (snd (main eng files e0 progName args))) = []
       \<and> registrations (trace (snd (main eng files e0 progName args))) = 0"
proof -
  have run: "main eng files e0 progName args = (Serving, emit [DoEventLoop] w1)"
    by (simp add: main_parsed [OF args] server closed)
  from create_server_sessions [OF server]
  have "session_requests (trace w1) = []" and "registrations (trace w1) = 0"
    by (simp_all add: startup_simps)
  then show ?thesis
    by (simp add: run emit_def session_requests_append registrations_append)
qed

text \<open>Claim C5 on a run whose definition file does not exist.\<close>

theorem C5_unreadable_file_no_sessions_witness:
  "parse_args [''streams.txt''] = Inr (defaults, ''streams.txt'')
   \<and> create_server (example_engine [554]) defaults (startup [])
       = (Inr 554, defaults,
          \<lparr>engine_state = [],
           trace = [Out (''RTSP Proxy Server'' @ newline), CreateServer 554]\<rparr>)
   \<and> one_file ''other.txt'' [] ''streams.txt'' = None
   \<and> main (example_engine [554]) (one_file ''other.txt'' []) [] ''proxy'' [''streams.txt'']
       = (Serving,
          \<lparr>engine_state = [],
           trace = [Out (''RTSP Proxy Server'' @ newline), CreateServer 554, DoEventLoop]\<rparr>)
   \<and> session_requests (trace (snd (main (example_engine [554]) (one_file ''other.txt'' [])
          [] ''proxy'' [''streams.txt'']))) = []"
proof -
  have args: "parse_args [''streams.txt''] = Inr (defaults, ''streams.txt'')"
    by (simp add: parse_args_def c_at_def)
  have server: "create_server (example_engine [554]) defaults (startup [])
       = (Inr 554, defaults,
          \<lparr>engine_state = [],
           trace = [Out (''RTSP Proxy Server'' @ newline), CreateServer 554]\<rparr>)"
    by (simp add: create_server_def createRTSPServer_def example_engine_def startup_def
          emit_def defaults_def)
  have closed: "one_file ''other.txt'' [] ''streams.txt'' = None"
    by (simp add: one_file_def)
  from C5_unreadable_file_no_sessions
    [where files = "one_file ''other.txt'' []" and progName = "''proxy''", OF args server closed]
  show ?thesis
    using args server closed by (simp add: emit_def)
qed

subsection \<open>C6: a port argument that is not a number\<close>

text \<open>
  Claim C6, as amended. The options before \<^verbatim>\<open>-p\<close> are accepted. If \<^verbatim>\<open>-p\<close> is the
  last argument, the program exits with status 1 through \<^verbatim>\<open>usage()\<close> and no
  configuration is produced. The same holds when the argument after \<^verbatim>\<open>-p\<close>, read as
  white space \<open>ws\<close>, an optional sign \<open>sg\<close>, a run of decimal digits \<open>ds\<close> and a
  remainder that does not begin with a digit, begins with a dash, or has no digits, or
  has digits whose value is at most \<^verbatim>\<open>ULONG_MAX\<close> and a multiple of 65536 (0
  included). The hypothesis \<open>canon\<close> says that the reading is the one of the conversion:
  with no sign and no digit, the remainder does not begin with white space or a sign.
\<close>

theorem C6_bad_port_usage:
  assumes pre: "parse_options defaults pre = Inr (c, [])"
    and ws: "list_all isspace ws"
    and sg: "sg = [] \<or> sg = ''+'' \<or> sg = ''-''"
    and ds: "list_all isdigit ds"
    and trailing: "trailing = [] \<or> \<not> isdigit (hd trailing)"
    and canon: "sg = [] \<and> ds = [] \<longrightarrow>
                  trailing = [] \<or> (\<not> isspace (hd trailing) \<and> hd trailing \<noteq> CHR ''+'' \<and> hd trailing \<noteq> CHR ''-'')"
    and bad: "(ws = [] \<and> sg = ''-'') \<or> ds = []
              \<or> (decimal_value ds \<le> ULONG_MAX \<and> decimal_value ds mod 65536 = 0)"
  shows "parse_args (pre @ [''-p'']) = Inl (Exit 1)
       \<and> fst (main eng files e0 progName (pre @ [''-p''])) = Exited (Exit 1)
       \<and> parse_args (pre @ ''-p'' # (ws @ sg @ ds @ trailing) # rest) = Inl (Exit 1)
       \<and> fst (main eng files e0 progName (pre @ ''-p'' # (ws @ sg @ ds @ trailing) # rest))
           = Exited (Exit 1)"
proof -
  let ?tok = "ws @ sg @ ds @ trailing"
  have "parse_options c [''-p''] = Inl (Exit 1)"
    by (simp add: c_at_def usage_exit_def)
  then have last: "parse_args (pre @ [''-p'']) = Inl (Exit 1)"
    by (simp add: parse_args_after_flags [OF pre])
  note scan = sscanf_hu_parts [OF ws sg ds trailing canon]
  have "c_at ?tok 0 = CHR ''-'' \<or> sscanf_hu ?tok = None \<or> sscanf_hu ?tok = Some 0"
    using bad
  proof (elim disjE conjE)
    assume "ws = []" "sg = ''-''"
    then show ?thesis by (simp add: c_at_def)
  next
    assume "ds = []"
    with scan show ?thesis by simp
  next
    assume "decimal_value ds \<le> ULONG_MAX" "decimal_value ds mod 65536 = 0"
    from strtoul10_multiple [OF this] scan show ?thesis by simp
  qed
  then have "parse_options c (''-p'' # ?tok # rest) = Inl (Exit 1)"
    by (auto simp only: parse_options_port_flag usage_exit_def split: if_splits) auto
  then have "parse_args (pre @ ''-p'' # ?tok # rest) = Inl (Exit 1)"
    by (simp add: parse_args_after_flags [OF pre])
  with last show ?thesis by (simp add: parse_args_Inl_main)
qed

text \<open>
  Claim C6, the amended statement on \<^verbatim>\<open>-v -p\<close>, and on \<^verbatim>\<open>-v -p TOKEN streams.txt\<close>
  for the tokens \<^verbatim>\<open>abc\<close>, \<^verbatim>\<open>0abc\<close> and \<^verbatim>\<open> +65536\<close>.
\<close>

theorem C6_bad_port_usage_witness:
  "parse_options defaults [''-v''] = Inr (defaults\<lparr>verbosityLevel := 1\<rparr>, [])
   \<and> parse_args [''-v'', ''-p''] = Inl (Exit 1)
   \<and> parse_args [''-v'', ''-p'', ''abc'', ''streams.txt''] = Inl (Exit 1)
   \<and> fst (main (example_engine [554]) (one_file ''streams.txt'' []) [] ''proxy''
          [''-v'', ''-p'', ''abc'', ''streams.txt'']) = Exited (Exit 1)
   \<and> decimal_value ''0'' = 0
   \<and> parse_args [''-v'', ''-p'', ''0abc'', ''streams.txt''] = Inl (Exit 1)
   \<and> decimal_value ''65536'' mod 65536 = 0
   \<and> parse_args [''-v'', ''-p'', '' +65536'', ''streams.txt''] = Inl (Exit 1)"
proof -
  have pre: "parse_options defaults [''-v''] = Inr (defaults\<lparr>verbosityLevel := 1\<rparr>, [])"
    by (simp add: c_at_def)
  have none: "list_all isspace []" "list_all isdigit []"
    by simp_all
  have abc: "''abc'' = [] \<or> \<not> isdigit (hd ''abc'')"
    "[] = [] \<and> [] = [] \<longrightarrow>
       ''abc'' = [] \<or> (\<not> isspace (hd ''abc'') \<and> hd ''abc'' \<noteq> CHR ''+'' \<and> hd ''abc'' \<noteq> CHR ''-'')"
    by (simp_all add: isdigit_def isspace_def)
  have zero: "list_all isdigit ''0''" "decimal_value ''0'' = 0" "decimal_value ''0'' \<le> ULONG_MAX"
    by (simp_all add: isdigit_def decimal_value_def digit_value_def)
  have mult: "list_all isspace '' ''" "list_all isdigit ''65536''"
    "decimal_value ''65536'' \<le> ULONG_MAX" "decimal_value ''65536'' mod 65536 = 0"
    by (simp_all add: isspace_def isdigit_def decimal_value_def digit_value_def ULONG_MAX_def)
  from C6_bad_port_usage [where sg = "[]" and eng = "example_engine [554]"
      and files = "one_file ''streams.txt'' []" and ?e0.0 = "[]" and progName = "''proxy''"
      and rest = "[''streams.txt'']", OF pre none(1) _ none(2) abc]
  have run1: "parse_args [''-v'', ''-p''] = Inl (Exit 1)
      \<and> parse_args [''-v'', ''-p'', ''abc'', ''streams.txt''] = Inl (Exit 1)
      \<and> fst (main (example_engine [554]) (one_file ''streams.txt'' []) [] ''proxy''
          [''-v'', ''-p'', ''abc'', ''streams.txt'']) = Exited (Exit 1)"
    by simp
  from C6_bad_port_usage [where sg = "[]" and eng = "example_engine [554]"
      and files = "one_file ''streams.txt'' []" and ?e0.0 = "[]" and progName = "''proxy''"
      and rest = "[''streams.txt'']", OF pre none(1) _ zero(1) abc(1)] zero
  have run2: "parse_args [''-v'', ''-p'', ''0abc'', ''streams.txt''] = Inl (Exit 1)"
    by simp
  from C6_bad_port_usage [where sg = "''+''" and trailing = "[]"
      and eng = "example_engine [554]" and files = "one_file ''streams.txt'' []"
      and ?e0.0 = "[]" and progName = "''proxy''" and rest = "[''streams.txt'']",
      OF pre mult(1) _ mult(2)] mult
  have run3: "parse_args [''-v'', ''-p'', '' +65536'', ''streams.txt''] = Inl (Exit 1)"
    by simp
  from pre run1 run2 run3 zero(2) mult(4) show ?thesis
    by (simp only: simp_thms)
qed

text \<open>
  Claim C6 as stated fails: \<^verbatim>\<open>80abc\<close> is not a number, and \<^verbatim>\<open>-p 80abc\<close> is
  accepted with port 80, because \<^verbatim>\<open>sscanf\<close> converts the leading digits and
  returns 1.
\<close>

theorem C6_trailing_characters_accepted:
  "parse_args [''-p'', ''80abc'', ''streams.txt'']
     = Inr (defaults\<lparr>rtspServerPortNum := 80\<rparr>, ''streams.txt'')
   \<and> \<not> list_all isdigit ''80abc''"
  by (simp add: parse_args_def c_at_def usage_exit_def scan_defs)

subsection \<open>C7: the port option\<close>

text \<open>
  Claim C7: for a well-formed argument list with \<^verbatim>\<open>-p n\<close>, where \<open>n\<close> is written in
  decimal digits and \<open>0 < n \<le> 65535\<close>, the parsed port is \<open>n\<close>. Well-formed as the
  usage line has it: accepted options before \<^verbatim>\<open>-p\<close>, only \<^verbatim>\<open>-v\<close> or
  \<^verbatim>\<open>-V\<close> options after its argument, then the path.
\<close>

theorem C7_port_option_sets_port:
  assumes pre: "parse_options defaults pre = Inr (c, [])"
    and tok: "tok \<noteq> []" "list_all isdigit tok"
    and n: "decimal_value tok = n" "0 < n" "n \<le> 65535"
    and post: "list_all verbosity_flag post"
    and path: "c_at path 0 \<noteq> CHR ''-''"
  shows "\<exists>c'. parse_args (pre @ ''-p'' # tok # post @ path # rest) = Inr (c', path)
            \<and> unat (rtspServerPortNum c') = n"
proof -
  from n have small: "min (decimal_value tok) ULONG_MAX = n"
    by (simp add: ULONG_MAX_def)
  have scan: "sscanf_hu tok = Some (of_nat n)" and nodash: "c_at tok 0 \<noteq> CHR ''-''"
    using sscanf_hu_digits [OF tok] small by simp_all
  from n have un: "unat (of_nat n :: 16 word) = n"
    by (simp add: unat_of_nat)
  with n have pos: "(of_nat n :: 16 word) > 0"
    by (simp add: word_less_nat_alt)
  from port_after_flags [OF post path] obtain c' where
    c': "parse_options (c\<lparr>rtspServerPortNum := of_nat n\<rparr>) (post @ path # rest) = Inr (c', path # rest)"
      "rtspServerPortNum c' = of_nat n"
    by blast
  have "parse_options c (''-p'' # tok # post @ path # rest) = Inr (c', path # rest)"
    using scan nodash pos c'(1) by (simp only: parse_options_port_flag) simp
  then have "parse_args (pre @ ''-p'' # tok # post @ path # rest) = Inr (c', path)"
    by (simp only: parse_args_after_flags [OF pre]) simp
  with c'(2) un show ?thesis by simp
qed

text \<open>Claim C7 on \<^verbatim>\<open>-v -p 8554 -V streams.txt\<close>.\<close>

theorem C7_port_option_sets_port_witness:
  "parse_options defaults [''-v''] = Inr (defaults\<lparr>verbosityLevel := 1\<rparr>, [])
   \<and> list_all isdigit ''8554'' \<and> decimal_value ''8554'' = 8554
   \<and> list_all verbosity_flag [''-V''] \<and> c_at ''streams.txt'' 0 \<noteq> CHR ''-''
   \<and> (\<exists>c'. parse_args [''-v'', ''-p'', ''8554'', ''-V'', ''streams.txt''] = Inr (c', ''streams.txt'')
          \<and> unat (rtspServerPortNum c') = 8554)"
proof -
  have pre: "parse_options defaults [''-v''] = Inr (defaults\<lparr>verbosityLevel := 1\<rparr>, [])"
    by (simp add: c_at_def)
  have tok: "''8554'' \<noteq> []" "list_all isdigit ''8554''"
    by (simp_all add: isdigit_def)
  have n: "decimal_value ''8554'' = 8554" "0 < (8554::nat)" "(8554::nat) \<le> 65535"
    by (simp_all add: decimal_value_def digit_value_def)
  have post: "list_all verbosity_flag [''-V'']"
    by (simp add: verbosity_flag_def c_at_def)
  have path: "c_at ''streams.txt'' 0 \<noteq> CHR ''-''"
    by (simp add: c_at_def)
  from C7_port_option_sets_port [OF pre tok n post path, of "[]"]
  show ?thesis
    using pre tok n post path by simp
qed

subsection \<open>C8: no path for the definition file\<close>

text \<open>
  Claim C8: an argument list with no path for the definition file (the empty list, or
  options only) ends in \<^verbatim>\<open>usage()\<close>: exit status 1 and no configuration.
\<close>

theorem C8_missing_path_usage:
  assumes "missing_path args"
  shows "parse_args args = Inl (Exit 1)
       \<and> fst (main eng files e0 progName args) = Exited (Exit 1)"
proof -
  have "parse_args args = Inl (Exit 1)"
    using missing_path_parse_options [OF assms, of defaults]
    by (auto simp: parse_args_def usage_exit_def)
  then show ?thesis by (simp add: parse_args_Inl_main)
qed

text \<open>Claim C8 on \<^verbatim>\<open>-v -p 8554\<close>.\<close>

theorem C8_missing_path_usage_witness:
  "missing_path [''-v'', ''-p'', ''8554'']
   \<and> parse_args [''-v'', ''-p'', ''8554''] = Inl (Exit 1)
   \<and> fst (main (example_engine [554]) (one_file ''streams.txt'' []) [] ''proxy''
          [''-v'', ''-p'', ''8554'']) = Exited (Exit 1)"
proof -
  have missing: "missing_path [''-v'', ''-p'', ''8554'']"
    by (simp add: c_at_def)
  from C8_missing_path_usage [OF missing, of "example_engine [554]" "one_file ''streams.txt'' []"
      "[]" "''proxy''"] and missing
  show ?thesis
    by blast
qed

subsection \<open>C9: arguments after the path\<close>

text \<open>
  Claim C9: when the accepted options are followed by two or more other arguments, the
  program does not fail on that account: the first of them is the path of the definition
  file, the file that \<open>main\<close> opens and reads is the one at that path, and what follows
  the path changes nothing in the run.
\<close>

theorem C9_extra_arguments_ignored:
  assumes pre: "parse_options defaults pre = Inr (c, [])"
    and path: "c_at path 0 \<noteq> CHR ''-''"
  shows "parse_args (pre @ path # rest) = Inr (c, path)
       \<and> main eng files e0 progName (pre @ path # rest) =
           (case create_server eng c (startup e0) of
              (Inl e, c1, w1) \<Rightarrow> (Exited e, w1)
            | (Inr srv, c1, w1) \<Rightarrow>
                (case files path of
                   None \<Rightarrow> (Serving, emit [DoEventLoop] w1)
                 | Some lines \<Rightarrow>
                     (case read_definitions eng c1 srv lines w1 of
                        Inl (f, w2) \<Rightarrow> (Undefined f, w2)
                      | Inr w2 \<Rightarrow> (Serving, emit [DoEventLoop] w2))))
       \<and> main eng files e0 progName (pre @ path # rest) = main eng files e0 progName (pre @ [path])"
proof -
  have parsed: "parse_args (pre @ path # trailing) = Inr (c, path)" for trailing
    using path by (simp add: parse_args_after_flags [OF pre])
  show ?thesis
    by (simp add: main_parsed [OF parsed] parsed)
qed

text \<open>
  Claim C9 on \<^verbatim>\<open>-V streams.txt more.txt -x\<close>: the session of the line in
  \<^verbatim>\<open>streams.txt\<close> is created, and a line in \<^verbatim>\<open>more.txt\<close> is not read.
\<close>

theorem C9_extra_arguments_ignored_witness:
  "parse_options defaults [''-V''] = Inr (defaults\<lparr>verbosityLevel := 2\<rparr>, [])
   \<and> c_at ''streams.txt'' 0 \<noteq> CHR ''-''
   \<and> parse_args [''-V'', ''streams.txt'', ''more.txt'', ''-x'']
       = Inr (defaults\<lparr>verbosityLevel := 2\<rparr>, ''streams.txt'')
   \<and> session_requests (trace (snd
         (main (example_engine [554])
            (one_file ''streams.txt'' [''rtsp://cam1.example.com/stream cam1'']) [] ''proxy''
            [''-V'', ''streams.txt'', ''more.txt'', ''-x''])))
       = [(''rtsp://cam1.example.com/stream cam1'', ''cam1'')]
   \<and> fst (main (example_engine [554])
            (one_file ''more.txt'' [''rtsp://cam1.example.com/stream cam1'']) [] ''proxy''
            [''-V'', ''streams.txt'', ''more.txt'', ''-x''])
       = Serving
   \<and> session_requests (trace (snd
         (main (example_engine [554])
            (one_file ''more.txt'' [''rtsp://cam1.example.com/stream cam1'']) [] ''proxy''
            [''-V'', ''streams.txt'', ''more.txt'', ''-x''])))
       = []
   \<and> main (example_engine [554])
         (one_file ''streams.txt'' [''rtsp://cam1.example.com/stream cam1'']) [] ''proxy''
         [''-V'', ''streams.txt'', ''more.txt'', ''-x'']
       = main (example_engine [554])
           (one_file ''streams.txt'' [''rtsp://cam1.example.com/stream cam1'']) [] ''proxy''
           [''-V'', ''streams.txt'']"
proof -
  have pre: "parse_options defaults [''-V''] = Inr (defaults\<lparr>verbosityLevel := 2\<rparr>, [])"
    by (simp add: c_at_def)
  have path: "c_at ''streams.txt'' 0 \<noteq> CHR ''-''"
    by (simp add: c_at_def)
  have server: "create_server (example_engine [554]) (defaults\<lparr>verbosityLevel := 2\<rparr>) (startup [])
      = (Inr 554, defaults\<lparr>verbosityLevel := 2\<rparr>,
         \<lparr>engine_state = [],
          trace = [Out (''RTSP Proxy Server'' @ newline), CreateServer 554]\<rparr>)"
    by (simp add: create_server_def createRTSPServer_def example_engine_def startup_def
          emit_def defaults_def)
  note used = C9_extra_arguments_ignored [OF pre path, where rest = "[''more.txt'', ''-x'']"
      and eng = "example_engine [554]" and ?e0.0 = "[]" and progName = "''proxy''"]
  note here = used [where files = "one_file ''streams.txt'' [''rtsp://cam1.example.com/stream cam1'']"]
  from here [THEN conjunct1]
  have parsed: "parse_args [''-V'', ''streams.txt'', ''more.txt'', ''-x'']
       = Inr (defaults\<lparr>verbosityLevel := 2\<rparr>, ''streams.txt'')"
    by simp
  from here [THEN conjunct2, THEN conjunct2]
  have same: "main (example_engine [554])
         (one_file ''streams.txt'' [''rtsp://cam1.example.com/stream cam1'']) [] ''proxy''
         [''-V'', ''streams.txt'', ''more.txt'', ''-x'']
       = main (example_engine [554])
           (one_file ''streams.txt'' [''rtsp://cam1.example.com/stream cam1'']) [] ''proxy''
           [''-V'', ''streams.txt'']"
    by simp
  from here [THEN conjunct2, THEN conjunct1]
  have opened: "main (example_engine [554])
         (one_file ''streams.txt'' [''rtsp://cam1.example.com/stream cam1'']) [] ''proxy''
         [''-V'', ''streams.txt'', ''more.txt'', ''-x'']
       = (case read_definitions (example_engine [554]) (defaults\<lparr>verbosityLevel := 2\<rparr>) 554
                 [''rtsp://cam1.example.com/stream cam1'']
                 \<lparr>engine_state = [],
                  trace = [Out (''RTSP Proxy Server'' @ newline), CreateServer 554]\<rparr> of
            Inl (f, w2) \<Rightarrow> (Undefined f, w2)
          | Inr w2 \<Rightarrow> (Serving, emit [DoEventLoop] w2))"
    by (simp add: server one_file_def del: read_definitions.simps)
  have run1: "session_requests (trace (snd
         (main (example_engine [554])
            (one_file ''streams.txt'' [''rtsp://cam1.example.com/stream cam1'']) [] ''proxy''
            [''-V'', ''streams.txt'', ''more.txt'', ''-x''])))
       = [(''rtsp://cam1.example.com/stream cam1'', ''cam1'')]"
    unfolding opened
    by (simp add: front_def find_space_def substr_def substr_from_def size_t_succ_def
          c_str_def proxy_stream_def example_engine_def emit_def Let_def)
  from used [where files = "one_file ''more.txt'' [''rtsp://cam1.example.com/stream cam1'']",
      THEN conjunct2, THEN conjunct1]
  have run2: "fst (main (example_engine [554])
            (one_file ''more.txt'' [''rtsp://cam1.example.com/stream cam1'']) [] ''proxy''
            [''-V'', ''streams.txt'', ''more.txt'', ''-x''])
       = Serving
    \<and> session_requests (trace (snd
         (main (example_engine [554])
            (one_file ''more.txt'' [''rtsp://cam1.example.com/stream cam1'']) [] ''proxy''
            [''-V'', ''streams.txt'', ''more.txt'', ''-x''])))
       = []"
    by (simp add: server one_file_def emit_def)
  from pre path parsed same run1 run2 show ?thesis
    by (simp only: simp_thms)
qed

subsection \<open>C10: a port number above 65535\<close>

text \<open>
  Claim C10, as amended: for \<^verbatim>\<open>-p n\<close> with \<open>65535 < n \<le> ULONG_MAX\<close> the argument is
  not rejected as too large: the port is \<open>n mod 65536\<close>, accepted when that is positive,
  and the program exits through \<^verbatim>\<open>usage()\<close> when it is 0.
\<close>

theorem C10_large_port_wraps:
  assumes pre: "parse_options defaults pre = Inr (c, [])"
    and tok: "tok \<noteq> []" "list_all isdigit tok"
    and n: "decimal_value tok = n" "65535 < n" "n \<le> ULONG_MAX"
    and post: "list_all verbosity_flag post"
    and path: "c_at path 0 \<noteq> CHR ''-''"
  shows "(n mod 65536 = 0 \<longrightarrow>
            parse_args (pre @ ''-p'' # tok # post @ path # rest) = Inl (Exit 1))
       \<and> (n mod 65536 \<noteq> 0 \<longrightarrow>
            (\<exists>c'. parse_args (pre @ ''-p'' # tok # post @ path # rest) = Inr (c', path)
                \<and> unat (rtspServerPortNum c') = n mod 65536))"
proof -
  from n have small: "min (decimal_value tok) ULONG_MAX = n"
    by simp
  have scan: "sscanf_hu tok = Some (of_nat n)" and nodash: "c_at tok 0 \<noteq> CHR ''-''"
    using sscanf_hu_digits [OF tok] small by simp_all
  have un: "unat (of_nat n :: 16 word) = n mod 65536"
    by (simp add: unat_of_nat)
  have step: "parse_options c (''-p'' # tok # post @ path # rest) =
      (if (of_nat n :: 16 word) > 0
       then parse_options (c\<lparr>rtspServerPortNum := of_nat n\<rparr>) (post @ path # rest)
       else usage_exit)"
    using scan nodash by (simp only: parse_options_port_flag) simp
  show ?thesis
  proof (cases "n mod 65536 = 0")
    case True
    with un have "\<not> (of_nat n :: 16 word) > 0"
      by (simp add: word_less_nat_alt)
    with step have "parse_options c (''-p'' # tok # post @ path # rest) = Inl (Exit 1)"
      by (simp add: usage_exit_def)
    then have "parse_args (pre @ ''-p'' # tok # post @ path # rest) = Inl (Exit 1)"
      by (simp only: parse_args_after_flags [OF pre]) simp
    with True show ?thesis by simp
  next
    case False
    with un have pos: "(of_nat n :: 16 word) > 0"
      by (simp add: word_less_nat_alt)
    from port_after_flags [OF post path] obtain c' where
      c': "parse_options (c\<lparr>rtspServerPortNum := of_nat n\<rparr>) (post @ path # rest) = Inr (c', path # rest)"
        "rtspServerPortNum c' = of_nat n"
      by blast
    from step pos c'(1)
    have "parse_options c (''-p'' # tok # post @ path # rest) = Inr (c', path # rest)"
      by simp
    then have "parse_args (pre @ ''-p'' # tok # post @ path # rest) = Inr (c', path)"
      by (simp only: parse_args_after_flags [OF pre]) simp
    with c'(2) un False show ?thesis by simp
  qed
qed

text \<open>
  Claim C10, the amended statement on \<^verbatim>\<open>-p 70000\<close> (port 4464) and on
  \<^verbatim>\<open>-p 65536\<close> (usage).
\<close>

theorem C10_large_port_wraps_witness:
  "list_all isdigit ''70000'' \<and> decimal_value ''70000'' = 70000 \<and> 70000 \<le> ULONG_MAX
   \<and> (70000::nat) mod 65536 = 4464
   \<and> (\<exists>c'. parse_args [''-p'', ''70000'', ''streams.txt''] = Inr (c', ''streams.txt'')
          \<and> unat (rtspServerPortNum c') = 4464)
   \<and> decimal_value ''65536'' = 65536
   \<and> parse_args [''-p'', ''65536'', ''streams.txt''] = Inl (Exit 1)"
proof -
  have pre: "parse_options defaults [] = Inr (defaults, [])"
    by simp
  have tok: "''70000'' \<noteq> []" "list_all isdigit ''70000''"
    by (simp_all add: isdigit_def)
  have n: "decimal_value ''70000'' = 70000" "65535 < (70000::nat)" "70000 \<le> ULONG_MAX"
    by (simp_all add: decimal_value_def digit_value_def ULONG_MAX_def)
  have tok': "''65536'' \<noteq> []" "list_all isdigit ''65536''"
    by (simp_all add: isdigit_def)
  have n': "decimal_value ''65536'' = 65536" "65535 < (65536::nat)" "65536 \<le> ULONG_MAX"
    by (simp_all add: decimal_value_def digit_value_def ULONG_MAX_def)
  have post: "list_all verbosity_flag []"
    by simp
  have path: "c_at ''streams.txt'' 0 \<noteq> CHR ''-''"
    by (simp add: c_at_def)
  from C10_large_port_wraps [OF pre tok n post path, of "[]"]
  have accepted: "\<exists>c'. parse_args [''-p'', ''70000'', ''streams.txt''] = Inr (c', ''streams.txt'')
          \<and> unat (rtspServerPortNum c') = 4464"
    by simp
  from C10_large_port_wraps [OF pre tok' n' post path, of "[]"]
  have rejected: "parse_args [''-p'', ''65536'', ''streams.txt''] = Inl (Exit 1)"
    by simp
  from accepted rejected tok n n' show ?thesis
    by simp
qed

text \<open>
  Claim C10 as stated fails beyond \<^verbatim>\<open>ULONG_MAX\<close>: \<open>2 ^ 64\<close> is 0 modulo 65536, and
  \<^verbatim>\<open>-p 18446744073709551616\<close> is accepted, with port 65535, because the
  conversion saturates at \<^verbatim>\<open>ULONG_MAX\<close> before it is narrowed.
\<close>

theorem C10_huge_port_saturates:
  "parse_args [''-p'', ''18446744073709551616'', ''streams.txt'']
     = Inr (defaults\<lparr>rtspServerPortNum := 65535\<rparr>, ''streams.txt'')
   \<and> decimal_value ''18446744073709551616'' mod 65536 = 0
   \<and> 65535 < decimal_value ''18446744073709551616''"
  by (simp add: parse_args_def c_at_def usage_exit_def scan_defs)

end
